theory Spec2Isabelle
  imports Main
begin

unbundle bit_operations_syntax

section \<open>Values shared by the commands of \<open>sugar/presence/activity.py\<close>\<close>

text \<open>
  Telepathy handles are D-Bus unsigned integers, channels are referred to by their object
  path, and the error delivered to an \<open>error_handler\<close> is kept as its description.
  A Python exception raised inside a method or callback is a value of \<open>py_exc\<close>.
\<close>

type_synonym handle = nat
type_synonym channel = string
type_synonym dbus_error = string

datatype py_exc =
    RuntimeError string
  | TypeError
  | AttributeError string
  | AssertionError
  | IndexError
  | ValueError string

datatype chan_type = CHANNEL_TYPE_TEXT | CHANNEL_TYPE_TUBES

datatype group_signal = GroupFlagsChanged | MembersChanged

text \<open>
  Everything a \<open>_JoinCommand\<close> does to the outside world: the GObject signal it emits,
  the asynchronous D-Bus calls it issues, the \<open>Channel\<close> proxies it constructs and the
  signal subscriptions it installs on the text channel's Group interface.
\<close>

datatype action =
    Emit_finished "dbus_error option"
  | RequestChannel chan_type "handle option"
  | New_Channel chan_type string
  | GetSelfHandle
  | Connect_to_signal group_signal
  | GetGroupFlags
  | GetAllMembers
  | AddMembers "handle list"
  | ListProperties
  | SetProperties "(nat \<times> bool) list"

text \<open>
  A method or callback returns the object as it left it, the actions it performed in
  order, and the exception it raised, if any (state written before the raise stays
  written, as in Python).
\<close>

type_synonym 'st outcome = "'st \<times> action list \<times> py_exc option"

definition state_of :: "'st \<times> 'a list \<times> py_exc option \<Rightarrow> 'st" where
  "state_of r = fst r"

definition actions_of :: "'st \<times> 'a list \<times> py_exc option \<Rightarrow> 'a list" where
  "actions_of r = fst (snd r)"

definition raised :: "'st \<times> 'a list \<times> py_exc option \<Rightarrow> py_exc option" where
  "raised r = snd (snd r)"

section \<open>\<open>_JoinCommand\<close>\<close>

text \<open>
  The attributes of a \<open>_JoinCommand\<close>. \<open>_self_handle\<close> is not set by \<open>__init__\<close>:
  it exists only once \<open>got_self_handle\<close> has run, so reading it earlier raises
  \<open>AttributeError\<close>; \<open>None\<close> stands for the missing attribute.
\<close>

record join_command =
  jc_room_handle :: "handle option"
  jc_finished :: bool
  jc_text_channel_group_flags :: "int option"
  jc_text_channel :: "channel option"
  jc_tubes_channel :: "channel option"
  jc_self_handle :: "handle option"

definition JoinCommand_init :: "handle option \<Rightarrow> join_command" where
  "JoinCommand_init room =
     \<lparr> jc_room_handle = room, jc_finished = False,
       jc_text_channel_group_flags = None, jc_text_channel = None,
       jc_tubes_channel = None, jc_self_handle = None \<rparr>"

definition run :: "join_command \<Rightarrow> join_command outcome" where
  "run s =
     (if jc_finished s
      then (s, [], Some (RuntimeError ''This command has already finished''))
      else (s, [RequestChannel CHANNEL_TYPE_TEXT (jc_room_handle s),
                RequestChannel CHANNEL_TYPE_TUBES (jc_room_handle s)], None))"

definition create_text_channel_cb :: "join_command \<Rightarrow> string \<Rightarrow> join_command outcome" where
  "create_text_channel_cb s channel_path = (s, [New_Channel CHANNEL_TYPE_TEXT channel_path], None)"

definition create_tubes_channel_cb :: "join_command \<Rightarrow> string \<Rightarrow> join_command outcome" where
  "create_tubes_channel_cb s channel_path = (s, [New_Channel CHANNEL_TYPE_TUBES channel_path], None)"

definition error_handler_cb :: "join_command \<Rightarrow> dbus_error \<Rightarrow> join_command outcome" where
  "error_handler_cb s e = (s\<lparr>jc_finished := True\<rparr>, [Emit_finished (Some e)], None)"

text \<open>
  \<open>_add_self_to_channel\<close> takes the Group interface of the text channel (the source
  assumes a Group channel, see its FIXME) and asks for the self handle.
\<close>

definition add_self_to_channel :: "join_command \<Rightarrow> join_command outcome" where
  "add_self_to_channel s = (s, [GetSelfHandle], None)"

definition tubes_ready :: "join_command \<Rightarrow> join_command outcome" where
  "tubes_ready s =
     (if jc_text_channel s = None \<or> jc_tubes_channel s = None
      then (s, [], None)
      else add_self_to_channel s)"

definition tubes_channel_ready_cb :: "join_command \<Rightarrow> channel \<Rightarrow> join_command outcome" where
  "tubes_channel_ready_cb s ch = tubes_ready (s\<lparr>jc_tubes_channel := Some ch\<rparr>)"

definition text_channel_ready_cb :: "join_command \<Rightarrow> channel \<Rightarrow> join_command outcome" where
  "text_channel_ready_cb s ch = tubes_ready (s\<lparr>jc_text_channel := Some ch\<rparr>)"

text \<open>
  \<open>self._text_channel_group_flags |= added\<close> followed by \<open>&= ~removed\<close>, on Python's
  unbounded integers; on \<open>None\<close> (no flags fetched yet) the first statement raises
  \<open>TypeError\<close>.
\<close>

definition text_channel_group_flags_changed_cb ::
  "join_command \<Rightarrow> int \<Rightarrow> int \<Rightarrow> join_command outcome" where
  "text_channel_group_flags_changed_cb s added removed =
     (case jc_text_channel_group_flags s of
        None \<Rightarrow> (s, [], Some TypeError)
      | Some flags \<Rightarrow>
          (s\<lparr>jc_text_channel_group_flags := Some ((flags OR added) AND NOT removed)\<rparr>,
           [], None))"

text \<open>
  \<open>__text_channel_members_changed_cb\<close>: everything after the bare \<open>return\<close> of the
  source is unreachable, so the handler is the test for the self handle alone.
\<close>

definition text_channel_members_changed_cb ::
  "join_command \<Rightarrow> string \<Rightarrow> handle list \<Rightarrow> handle list \<Rightarrow> handle list \<Rightarrow> handle list
     \<Rightarrow> nat \<Rightarrow> nat \<Rightarrow> join_command outcome" where
  "text_channel_members_changed_cb s message added removed local_pending remote_pending
       actor reason =
     (case jc_self_handle s of
        None \<Rightarrow> (s, [], Some (AttributeError ''_self_handle''))
      | Some h \<Rightarrow>
          (if h \<in> set added
           then (s\<lparr>jc_finished := True\<rparr>, [Emit_finished None], None)
           else (s, [], None)))"

definition got_all_members ::
  "join_command \<Rightarrow> handle list \<Rightarrow> handle list \<Rightarrow> handle list \<Rightarrow> join_command outcome" where
  "got_all_members s members local_pending remote_pending =
     (let r = (if members \<noteq> []
               then text_channel_members_changed_cb s '''' members [] [] [] 0 0
               else (s, [], None));
          s1 = state_of r
      in case raised r of
           Some x \<Rightarrow> (s1, actions_of r, Some x)
         | None \<Rightarrow>
            (case jc_self_handle s1 of
               None \<Rightarrow> (s1, actions_of r, Some (AttributeError ''_self_handle''))
             | Some h \<Rightarrow>
                 (if h \<in> set members
                  then (if jc_finished s1
                        then (s1, actions_of r, None)
                        else (s1, actions_of r, Some AssertionError))
                  else (s1, actions_of r @ [AddMembers [h]], None))))"

definition got_group_flags :: "join_command \<Rightarrow> int \<Rightarrow> join_command outcome" where
  "got_group_flags s flags =
     (s\<lparr>jc_text_channel_group_flags := Some flags\<rparr>,
      [Connect_to_signal MembersChanged, GetAllMembers], None)"

definition got_self_handle :: "join_command \<Rightarrow> handle \<Rightarrow> join_command outcome" where
  "got_self_handle s self_handle =
     (s\<lparr>jc_self_handle := Some self_handle\<rparr>,
      [Connect_to_signal GroupFlagsChanged, GetGroupFlags], None)"

text \<open>
  The two handlers given to \<open>AddMembers\<close>: the reply handler is \<open>lambda: None\<close>; the
  error handler calls \<open>self._join_failed_cb\<close>, which \<open>_JoinCommand\<close> does not define.
\<close>

definition add_members_reply :: "join_command \<Rightarrow> join_command outcome" where
  "add_members_reply s = (s, [], None)"

definition add_members_error :: "join_command \<Rightarrow> dbus_error \<Rightarrow> join_command outcome" where
  "add_members_error s e = (s, [], Some (AttributeError ''_join_failed_cb''))"

text \<open>
  One delivery to the command: the call of \<open>run\<close>, or one callback run by the main loop.
  \<open>Error_reply\<close> is \<open>__error_handler_cb\<close>, the error handler of both \<open>RequestChannel\<close>
  calls and of \<open>GetSelfHandle\<close>, \<open>GetGroupFlags\<close> and \<open>GetAllMembers\<close>.
\<close>

datatype join_event =
    Run
  | Create_text_channel_reply string
  | Create_tubes_channel_reply string
  | Error_reply dbus_error
  | Text_channel_ready channel
  | Tubes_channel_ready channel
  | Got_self_handle handle
  | Got_group_flags int
  | Group_flags_changed int int
  | Got_all_members "handle list" "handle list" "handle list"
  | Members_changed string "handle list" "handle list" "handle list" "handle list" nat nat
  | Add_members_reply
  | Add_members_error dbus_error

fun deliver :: "join_command \<Rightarrow> join_event \<Rightarrow> join_command outcome" where
  "deliver s Run = run s"
| "deliver s (Create_text_channel_reply p) = create_text_channel_cb s p"
| "deliver s (Create_tubes_channel_reply p) = create_tubes_channel_cb s p"
| "deliver s (Error_reply e) = error_handler_cb s e"
| "deliver s (Text_channel_ready ch) = text_channel_ready_cb s ch"
| "deliver s (Tubes_channel_ready ch) = tubes_channel_ready_cb s ch"
| "deliver s (Got_self_handle h) = got_self_handle s h"
| "deliver s (Got_group_flags f) = got_group_flags s f"
| "deliver s (Group_flags_changed a r) = text_channel_group_flags_changed_cb s a r"
| "deliver s (Got_all_members m lp rp) = got_all_members s m lp rp"
| "deliver s (Members_changed msg a r lp rp actor reason) =
     text_channel_members_changed_cb s msg a r lp rp actor reason"
| "deliver s Add_members_reply = add_members_reply s"
| "deliver s (Add_members_error e) = add_members_error s e"

text \<open>
  A sequence of deliveries: an exception raised by one of them is reported to its caller
  (or logged by the D-Bus binding) and the next delivery finds the object as it was left.
\<close>

fun final_state :: "join_command \<Rightarrow> join_event list \<Rightarrow> join_command" where
  "final_state s [] = s"
| "final_state s (ev # evs) = final_state (state_of (deliver s ev)) evs"

fun trace :: "join_command \<Rightarrow> join_event list \<Rightarrow> action list" where
  "trace s [] = []"
| "trace s (ev # evs) = actions_of (deliver s ev) @ trace (state_of (deliver s ev)) evs"

fun is_finished_emission :: "action \<Rightarrow> bool" where
  "is_finished_emission (Emit_finished e) = True"
| "is_finished_emission a = False"

definition finished_emissions :: "action list \<Rightarrow> action list" where
  "finished_emissions acts = filter is_finished_emission acts"

text \<open>
  A delivery is a terminal condition when it is an error reply, or a membership event or
  bulk member reply whose member list holds the self handle.
\<close>

fun terminal :: "join_command \<Rightarrow> join_event \<Rightarrow> bool" where
  "terminal s (Error_reply e) = True"
| "terminal s (Members_changed msg a r lp rp actor reason) =
     (case jc_self_handle s of None \<Rightarrow> False | Some h \<Rightarrow> h \<in> set a)"
| "terminal s (Got_all_members m lp rp) =
     (case jc_self_handle s of None \<Rightarrow> False | Some h \<Rightarrow> h \<in> set m)"
| "terminal s ev = False"

fun terminal_count :: "join_command \<Rightarrow> join_event list \<Rightarrow> nat" where
  "terminal_count s [] = 0"
| "terminal_count s (ev # evs) =
     (if terminal s ev then 1 else 0) + terminal_count (state_of (deliver s ev)) evs"

text \<open>
  The order the spec asks for, as a check of a trace: no subscription to
  \<open>GroupFlagsChanged\<close> before a \<open>GetGroupFlags\<close> call was issued (\<open>fetched\<close> tells
  whether one was).
\<close>

fun fetched_before_subscribed :: "bool \<Rightarrow> action list \<Rightarrow> bool" where
  "fetched_before_subscribed fetched [] = True"
| "fetched_before_subscribed fetched (GetGroupFlags # acts) = fetched_before_subscribed True acts"
| "fetched_before_subscribed fetched (Connect_to_signal sig # acts) =
     (if sig = GroupFlagsChanged
      then fetched \<and> fetched_before_subscribed fetched acts
      else fetched_before_subscribed fetched acts)"
| "fetched_before_subscribed fetched (a # acts) = fetched_before_subscribed fetched acts"

text \<open>
  The order of the source, as a check of a trace: every \<open>GetGroupFlags\<close> call comes
  directly after a subscription to \<open>GroupFlagsChanged\<close> (\<open>subscribed\<close> tells whether
  the action before was one).
\<close>

fun subscribed_then_fetched :: "bool \<Rightarrow> action list \<Rightarrow> bool" where
  "subscribed_then_fetched subscribed [] = True"
| "subscribed_then_fetched subscribed (GetGroupFlags # acts) =
     (subscribed \<and> subscribed_then_fetched False acts)"
| "subscribed_then_fetched subscribed (Connect_to_signal sig # acts) =
     subscribed_then_fetched (sig = GroupFlagsChanged) acts"
| "subscribed_then_fetched subscribed (a # acts) = subscribed_then_fetched False acts"

text \<open>
  The order of the source in full, as a check of a trace: the subscription to
  \<open>GroupFlagsChanged\<close> and the \<open>GetGroupFlags\<close> call occur only together, the
  subscription first and the call as the very next action (\<open>pending\<close> tells whether a
  subscription still waits for its call).
\<close>

fun subscription_then_fetch_pairs :: "bool \<Rightarrow> action list \<Rightarrow> bool" where
  "subscription_then_fetch_pairs pending [] = (\<not> pending)"
| "subscription_then_fetch_pairs pending (GetGroupFlags # acts) =
     (pending \<and> subscription_then_fetch_pairs False acts)"
| "subscription_then_fetch_pairs pending (Connect_to_signal sig # acts) =
     (\<not> pending \<and> subscription_then_fetch_pairs (sig = GroupFlagsChanged) acts)"
| "subscription_then_fetch_pairs pending (a # acts) =
     (\<not> pending \<and> subscription_then_fetch_pairs False acts)"

fun is_got_self_handle :: "join_event \<Rightarrow> bool" where
  "is_got_self_handle (Got_self_handle h) = True"
| "is_got_self_handle ev = False"

text \<open>
  The error reply of \<open>AddMembers\<close> is the one delivery whose handler cannot run (it calls
  the undefined \<open>_join_failed_cb\<close>); statements about outcomes set it aside.
\<close>

fun is_add_members_error :: "join_event \<Rightarrow> bool" where
  "is_add_members_error (Add_members_error e) = True"
| "is_add_members_error ev = False"

section \<open>\<open>_ShareCommand\<close>\<close>

datatype share_action =
    Share_emit_finished "dbus_error option"
  | RequestHandles string
  | AddActivity string "handle option"
  | Join_action action

record share_command =
  sc_activity_id :: string
  sc_finished :: bool
  sc_join_command :: "join_command option"
  sc_text_channel :: "channel option"
  sc_tubes_channel :: "channel option"
  sc_room_handle :: "handle option"

type_synonym share_outcome = "share_command \<times> share_action list \<times> py_exc option"

definition ShareCommand_init :: "string \<Rightarrow> share_command" where
  "ShareCommand_init activity_id =
     \<lparr> sc_activity_id = activity_id, sc_finished = False, sc_join_command = None,
       sc_text_channel = None, sc_tubes_channel = None, sc_room_handle = None \<rparr>"

definition share_run :: "share_command \<Rightarrow> share_outcome" where
  "share_run s = (s, [RequestHandles (sc_activity_id s)], None)"

definition share_joined_cb ::
  "share_command \<Rightarrow> join_command \<Rightarrow> dbus_error option \<Rightarrow> share_outcome" where
  "share_joined_cb s join_command error =
     (case error of
        Some e \<Rightarrow> (s\<lparr>sc_finished := True\<rparr>, [Share_emit_finished (Some e)], None)
      | None \<Rightarrow>
          (s\<lparr>sc_text_channel := jc_text_channel join_command,
             sc_tubes_channel := jc_tubes_channel join_command\<rparr>,
           [AddActivity (sc_activity_id s) (sc_room_handle s)], None))"

definition share_added_activity_cb :: "share_command \<Rightarrow> share_outcome" where
  "share_added_activity_cb s = (s\<lparr>sc_finished := True\<rparr>, [Share_emit_finished None], None)"

definition share_error_handler_cb :: "share_command \<Rightarrow> dbus_error \<Rightarrow> share_outcome" where
  "share_error_handler_cb s e = (s\<lparr>sc_finished := True\<rparr>, [Share_emit_finished (Some e)], None)"

text \<open>
  \<open>__joined_cb\<close> is connected to the \<open>finished\<close> signal of the inner \<open>_JoinCommand\<close>, and
  GObject runs a connected handler inside \<open>emit\<close>: each \<open>finished\<close> emission among the
  actions of the inner command is followed at once by what \<open>__joined_cb\<close> does. The
  handler reads the two channel attributes of the inner command, which no emitting
  callback writes, so the command as its callback leaves it is the command at \<open>emit\<close>.
\<close>

fun forward_join_actions :: "share_command \<Rightarrow> join_command \<Rightarrow> action list \<Rightarrow> share_outcome" where
  "forward_join_actions s jc [] = (s, [], None)"
| "forward_join_actions s jc (Emit_finished e # acts) =
     (let r = share_joined_cb s jc e;
          r2 = forward_join_actions (state_of r) jc acts
      in (state_of r2, Join_action (Emit_finished e) # actions_of r @ actions_of r2, raised r2))"
| "forward_join_actions s jc (a # acts) =
     (let r2 = forward_join_actions s jc acts
      in (state_of r2, Join_action a # actions_of r2, raised r2))"

definition share_got_handles_cb :: "share_command \<Rightarrow> handle list \<Rightarrow> share_outcome" where
  "share_got_handles_cb s handles =
     (case handles of
        [] \<Rightarrow> (s, [], Some IndexError)
      | h # hs \<Rightarrow>
          (let r = run (JoinCommand_init (Some h));
               f = forward_join_actions
                     (s\<lparr>sc_room_handle := Some h, sc_join_command := Some (state_of r)\<rparr>)
                     (state_of r) (actions_of r)
           in (state_of f, actions_of f, raised r)))"

text \<open>
  A delivery to the share command: its own \<open>run\<close> and callbacks (\<open>Share_error_reply\<close> is
  \<open>__error_handler_cb\<close>, the error handler of both \<open>RequestHandles\<close> and \<open>AddActivity\<close>),
  or a callback of the inner join command, which exists once \<open>__got_handles_cb\<close> ran.
\<close>

datatype share_event =
    Share_run
  | Got_handles "handle list"
  | Share_error_reply dbus_error
  | Added_activity
  | Join_event join_event

fun share_deliver :: "share_command \<Rightarrow> share_event \<Rightarrow> share_outcome" where
  "share_deliver s Share_run = share_run s"
| "share_deliver s (Got_handles hs) = share_got_handles_cb s hs"
| "share_deliver s (Share_error_reply e) = share_error_handler_cb s e"
| "share_deliver s Added_activity = share_added_activity_cb s"
| "share_deliver s (Join_event ev) =
     (case sc_join_command s of
        None \<Rightarrow> (s, [], None)
      | Some jc \<Rightarrow>
          (let r = deliver jc ev;
               f = forward_join_actions (s\<lparr>sc_join_command := Some (state_of r)\<rparr>)
                     (state_of r) (actions_of r)
           in (state_of f, actions_of f, raised r)))"

fun share_final_state :: "share_command \<Rightarrow> share_event list \<Rightarrow> share_command" where
  "share_final_state s [] = s"
| "share_final_state s (ev # evs) = share_final_state (state_of (share_deliver s ev)) evs"

fun share_trace :: "share_command \<Rightarrow> share_event list \<Rightarrow> share_action list" where
  "share_trace s [] = []"
| "share_trace s (ev # evs) =
     actions_of (share_deliver s ev) @ share_trace (state_of (share_deliver s ev)) evs"

text \<open>What the share command itself does: its trace without the inner command's actions.\<close>

fun is_join_action :: "share_action \<Rightarrow> bool" where
  "is_join_action (Join_action a) = True"
| "is_join_action a = False"

definition share_own_actions :: "share_action list \<Rightarrow> share_action list" where
  "share_own_actions acts = filter (\<lambda>a. \<not> is_join_action a) acts"

fun is_share_finished_emission :: "share_action \<Rightarrow> bool" where
  "is_share_finished_emission (Share_emit_finished e) = True"
| "is_share_finished_emission a = False"

definition share_finished_emissions :: "share_action list \<Rightarrow> share_action list" where
  "share_finished_emissions acts = filter is_share_finished_emission acts"

text \<open>
  The terminal conditions of a share command: an error reply of its own calls, the reply
  of \<open>AddActivity\<close>, and an error reply delivered to its inner join command.
\<close>

fun share_terminal :: "share_command \<Rightarrow> share_event \<Rightarrow> bool" where
  "share_terminal s (Share_error_reply e) = True"
| "share_terminal s Added_activity = True"
| "share_terminal s (Join_event (Error_reply e)) = (sc_join_command s \<noteq> None)"
| "share_terminal s ev = False"

fun share_terminal_count :: "share_command \<Rightarrow> share_event list \<Rightarrow> nat" where
  "share_terminal_count s [] = 0"
| "share_terminal_count s (ev # evs) =
     (if share_terminal s ev then 1 else 0)
       + share_terminal_count (state_of (share_deliver s ev)) evs"

text \<open>What \<open>__joined_cb\<close> makes of one action of the inner command.\<close>

fun forwarded :: "string \<Rightarrow> handle option \<Rightarrow> action \<Rightarrow> share_action list" where
  "forwarded activity_id room (Emit_finished None) = [AddActivity activity_id room]"
| "forwarded activity_id room (Emit_finished (Some e)) = [Share_emit_finished (Some e)]"
| "forwarded activity_id room a = []"

fun is_join_add_members_error :: "share_event \<Rightarrow> bool" where
  "is_join_add_members_error (Join_event ev) = is_add_members_error ev"
| "is_join_add_members_error ev = False"

text \<open>
  What a share command makes of the deliveries to its inner join command, one after the
  other: an error reply becomes a failure of the share command with that error; a
  delivery in which the join command sees its self handle becomes the \<open>AddActivity\<close>
  call; any other delivery gives nothing.
\<close>

fun join_outcome ::
  "string \<Rightarrow> handle option \<Rightarrow> join_command \<Rightarrow> join_event \<Rightarrow> share_action list" where
  "join_outcome activity_id room jc (Error_reply e) = [Share_emit_finished (Some e)]"
| "join_outcome activity_id room jc ev =
     (if terminal jc ev then [AddActivity activity_id room] else [])"

fun join_outcomes ::
  "string \<Rightarrow> handle option \<Rightarrow> join_command \<Rightarrow> join_event list \<Rightarrow> share_action list" where
  "join_outcomes activity_id room jc [] = []"
| "join_outcomes activity_id room jc (ev # evs) =
     join_outcome activity_id room jc ev
       @ join_outcomes activity_id room (state_of (deliver jc ev)) evs"

section \<open>\<open>Activity\<close>\<close>

text \<open>
  The Python values an attribute of an \<open>Activity\<close> can hold: they come from the
  \<open>properties\<close> dictionary of the caller or from a D-Bus property dictionary.
\<close>

datatype pyval = PNone | PStr string | PBool bool | PInt int

fun isinstance_str :: "pyval \<Rightarrow> bool" where
  "isinstance_str (PStr x) = True"
| "isinstance_str v = False"

fun truthy :: "pyval \<Rightarrow> bool" where
  "truthy PNone = False"
| "truthy (PStr x) = (x \<noteq> [])"
| "truthy (PBool b) = b"
| "truthy (PInt i) = (i \<noteq> 0)"

fun py_eq :: "pyval \<Rightarrow> pyval \<Rightarrow> bool" where
  "py_eq PNone PNone = True"
| "py_eq (PStr x) (PStr y) = (x = y)"
| "py_eq (PBool a) (PBool b) = (a = b)"
| "py_eq (PInt i) (PInt j) = (i = j)"
| "py_eq (PBool a) (PInt j) = ((if a then 1 else 0) = j)"
| "py_eq (PInt i) (PBool b) = (i = (if b then 1 else 0))"
| "py_eq v w = False"

type_synonym pydict = "(string \<times> pyval) list"

definition dict_get :: "pydict \<Rightarrow> string \<Rightarrow> pyval \<Rightarrow> pyval" where
  "dict_get d k dflt = (case map_of d k of None \<Rightarrow> dflt | Some v \<Rightarrow> v)"

datatype activity_action =
    Emit_joined bool "string option"
  | Emit_buddy_joined handle
  | Emit_buddy_left handle
  | Notify string
  | GetProperties handle
  | Connect_ActivityPropertiesChanged
  | Connect_group_MembersChanged
  | Connect_channel_Closed
  | Publish_properties "handle option" pydict
  | Command_action action

record activity =
  act_room_handle :: "handle option"
  act_join_command :: "join_command option"
  act_text_chan :: "channel option"
  act_tubes_chan :: "channel option"
  act_id :: pyval
  act_color :: pyval
  act_name :: pyval
  act_type :: pyval
  act_tags :: pyval
  act_private :: pyval
  act_joined :: pyval
  act_get_properties_call :: bool

type_synonym activity_outcome = "activity \<times> activity_action list \<times> py_exc option"

definition start_tracking_properties :: "activity \<Rightarrow> handle \<Rightarrow> activity_outcome" where
  "start_tracking_properties s room =
     (s\<lparr>act_get_properties_call := True\<rparr>,
      [GetProperties room, Connect_ActivityPropertiesChanged], None)"

text \<open>
  \<open>Activity.__init__\<close>: no object is made when neither a room handle nor properties are
  given; otherwise the attributes are read from the properties and, with a room handle,
  property tracking starts.
\<close>

definition Activity_init ::
  "handle option \<Rightarrow> pydict option \<Rightarrow> py_exc + activity \<times> activity_action list" where
  "Activity_init room_handle properties =
     (if room_handle = None \<and> properties = None
      then Inl (ValueError ''Need to pass one of room_handle or properties'')
      else
        (let props = (case properties of None \<Rightarrow> [] | Some d \<Rightarrow> d);
             s = \<lparr> act_room_handle = room_handle, act_join_command = None,
                   act_text_chan = None, act_tubes_chan = None,
                   act_id = dict_get props ''id'' PNone,
                   act_color = dict_get props ''color'' PNone,
                   act_name = dict_get props ''name'' PNone,
                   act_type = dict_get props ''type'' PNone,
                   act_tags = dict_get props ''tags'' PNone,
                   act_private = dict_get props ''private'' (PBool True),
                   act_joined = dict_get props ''joined'' (PBool False),
                   act_get_properties_call = False \<rparr>
         in case room_handle of
              None \<Rightarrow> Inr (s, [])
            | Some room \<Rightarrow>
                Inr (state_of (start_tracking_properties s room),
                     actions_of (start_tracking_properties s room))))"

text \<open>
  \<open>_update_properties\<close> is six blocks run one after the other, each reading the
  object as the blocks before left it. A block gives the object and its \<open>notify\<close> calls.
\<close>

type_synonym block = "activity \<times> activity_action list"

definition update_name :: "pydict \<Rightarrow> activity \<Rightarrow> block" where
  "update_name new_props s =
     (let val = dict_get new_props ''name'' (act_name s)
      in if isinstance_str val \<and> \<not> py_eq val (act_name s)
         then (s\<lparr>act_name := val\<rparr>, [Notify ''name'']) else (s, []))"

definition update_tags :: "pydict \<Rightarrow> activity \<Rightarrow> block" where
  "update_tags new_props s =
     (let val = dict_get new_props ''tags'' (act_tags s)
      in if isinstance_str val \<and> \<not> py_eq val (act_tags s)
         then (s\<lparr>act_tags := val\<rparr>, [Notify ''tags'']) else (s, []))"

definition update_color :: "pydict \<Rightarrow> activity \<Rightarrow> block" where
  "update_color new_props s =
     (let val = dict_get new_props ''color'' (act_color s)
      in if isinstance_str val \<and> \<not> py_eq val (act_color s)
         then (s\<lparr>act_color := val\<rparr>, [Notify ''color'']) else (s, []))"

definition update_private :: "pydict \<Rightarrow> activity \<Rightarrow> block" where
  "update_private new_props s =
     (let val = PBool (truthy (dict_get new_props ''private'' (act_private s)))
      in if \<not> py_eq val (act_private s)
         then (s\<lparr>act_private := val\<rparr>, [Notify ''private'']) else (s, []))"

definition update_id :: "pydict \<Rightarrow> activity \<Rightarrow> block" where
  "update_id new_props s =
     (let val = dict_get new_props ''id'' (act_id s)
      in if isinstance_str val \<and> act_id s = PNone
         then (s\<lparr>act_id := val\<rparr>, [Notify ''id'']) else (s, []))"

definition update_type :: "pydict \<Rightarrow> activity \<Rightarrow> block" where
  "update_type new_props s =
     (let val = dict_get new_props ''type'' (act_type s)
      in if isinstance_str val \<and> act_type s = PNone
         then (s\<lparr>act_type := val\<rparr>, [Notify ''type'']) else (s, []))"

definition then_block :: "block \<Rightarrow> (activity \<Rightarrow> block) \<Rightarrow> block" where
  "then_block r f = (fst (f (fst r)), snd r @ snd (f (fst r)))"

definition update_properties :: "activity \<Rightarrow> pydict \<Rightarrow> activity_outcome" where
  "update_properties s new_props =
     (let r = then_block (then_block (then_block (then_block (then_block
                (update_name new_props s)
                (update_tags new_props)) (update_color new_props)) (update_private new_props))
                (update_id new_props)) (update_type new_props)
      in (fst r, snd r, None))"

definition got_properties_cb :: "activity \<Rightarrow> pydict \<Rightarrow> activity_outcome" where
  "got_properties_cb s properties =
     update_properties (s\<lparr>act_get_properties_call := False\<rparr>) properties"

definition activity_properties_changed_cb ::
  "activity \<Rightarrow> handle \<Rightarrow> pydict \<Rightarrow> activity_outcome" where
  "activity_properties_changed_cb s room_handle properties = update_properties s properties"

definition publish_properties :: "activity \<Rightarrow> activity_outcome" where
  "publish_properties s =
     (s,
      [Publish_properties (act_room_handle s)
         ((if act_color s \<noteq> PNone then [(''color'', act_color s)] else [])
          @ (if act_name s \<noteq> PNone then [(''name'', act_name s)] else [])
          @ (if act_type s \<noteq> PNone then [(''type'', act_type s)] else [])
          @ (if act_tags s \<noteq> PNone then [(''tags'', act_tags s)] else [])
          @ [(''private'', act_private s)])],
      None)"

definition do_set_property :: "activity \<Rightarrow> string \<Rightarrow> pyval \<Rightarrow> activity_outcome" where
  "do_set_property s pspec_name val =
     (if pspec_name = ''name'' then publish_properties (s\<lparr>act_name := val\<rparr>)
      else if pspec_name = ''color'' then publish_properties (s\<lparr>act_color := val\<rparr>)
      else if pspec_name = ''tags'' then publish_properties (s\<lparr>act_tags := val\<rparr>)
      else if pspec_name = ''private'' then publish_properties (s\<lparr>act_private := val\<rparr>)
      else (s, [], Some (ValueError ''Unknown property'')))"

text \<open>\<open>Activity.__text_channel_members_changed_cb\<close>: one emission per element of \<open>added\<close>.\<close>

definition activity_text_channel_members_changed_cb ::
  "activity \<Rightarrow> string \<Rightarrow> handle list \<Rightarrow> handle list \<Rightarrow> handle list \<Rightarrow> handle list
     \<Rightarrow> nat \<Rightarrow> nat \<Rightarrow> activity_outcome" where
  "activity_text_channel_members_changed_cb s message added removed local_pending
       remote_pending actor reason =
     (s, map Emit_buddy_joined added, None)"

text \<open>
  \<open>_start_tracking_buddies\<close> and \<open>_start_tracking_channel\<close> index the text channel:
  on \<open>None\<close> that raises \<open>TypeError\<close>.
\<close>

definition start_tracking_buddies :: "activity \<Rightarrow> activity_outcome" where
  "start_tracking_buddies s =
     (case act_text_chan s of
        None \<Rightarrow> (s, [], Some TypeError)
      | Some ch \<Rightarrow> (s, [Connect_group_MembersChanged], None))"

definition start_tracking_channel :: "activity \<Rightarrow> activity_outcome" where
  "start_tracking_channel s =
     (case act_text_chan s of
        None \<Rightarrow> (s, [], Some TypeError)
      | Some ch \<Rightarrow> (s, [Connect_channel_Closed], None))"

definition str_of_error :: "dbus_error option \<Rightarrow> string" where
  "str_of_error error = (case error of None \<Rightarrow> ''None'' | Some e \<Rightarrow> e)"

text \<open>
  \<open>Activity.__joined_cb\<close>, the handler of the join command's \<open>finished\<close> signal. The
  \<open>joined\<close> signal is emitted last, so an exception raised while tracking starts leaves
  it out.
\<close>

definition activity_joined_cb ::
  "activity \<Rightarrow> join_command \<Rightarrow> dbus_error option \<Rightarrow> activity_outcome" where
  "activity_joined_cb s join_command error =
     (case error of
        Some e \<Rightarrow> (s, [Emit_joined False (Some (str_of_error error))], None)
      | None \<Rightarrow>
          (let s1 = s\<lparr>act_joined := PBool True,
                      act_text_chan := jc_text_channel join_command,
                      act_tubes_chan := jc_tubes_channel join_command\<rparr>;
               r1 = start_tracking_buddies s1;
               r2 = start_tracking_channel s1
           in case raised r1 of
                Some x \<Rightarrow> (s1, [], Some x)
              | None \<Rightarrow>
                 (case raised r2 of
                    Some x \<Rightarrow> (s1, actions_of r1, Some x)
                  | None \<Rightarrow>
                      (s1,
                       actions_of r1 @ actions_of r2
                         @ [Emit_joined True (Some (str_of_error error))],
                       None))))"

definition activity_text_channel_closed_cb :: "activity \<Rightarrow> activity_outcome" where
  "activity_text_channel_closed_cb s =
     (s\<lparr>act_joined := PBool False\<rparr>, [Emit_joined False (Some ''left activity'')], None)"

text \<open>
  As for the share command, the handler runs inside each \<open>finished\<close> emission of the
  join command; GObject reports an exception of the handler and goes on, so it does not
  reach the callback that emitted.
\<close>

fun forward_command_actions ::
  "activity \<Rightarrow> join_command \<Rightarrow> action list \<Rightarrow> activity \<times> activity_action list" where
  "forward_command_actions s jc [] = (s, [])"
| "forward_command_actions s jc (Emit_finished e # acts) =
     (let r = activity_joined_cb s jc e;
          r2 = forward_command_actions (state_of r) jc acts
      in (fst r2, Command_action (Emit_finished e) # actions_of r @ snd r2))"
| "forward_command_actions s jc (a # acts) =
     (let r2 = forward_command_actions s jc acts
      in (fst r2, Command_action a # snd r2))"

definition join :: "activity \<Rightarrow> activity_outcome" where
  "join s =
     (if act_join_command s \<noteq> None then (s, [], None)
      else if truthy (act_joined s) then (s, [Emit_joined True None], None)
      else
        (let r = run (JoinCommand_init (act_room_handle s));
             f = forward_command_actions (s\<lparr>act_join_command := Some (state_of r)\<rparr>)
                   (state_of r) (actions_of r)
         in (fst f, snd f, raised r)))"

text \<open>
  A delivery to the activity: a call of \<open>join\<close> or \<open>do_set_property\<close>, one of its own
  callbacks, or a callback of the join command it holds.
\<close>

datatype activity_event =
    Join_called
  | Got_properties pydict
  | Activity_properties_changed handle pydict
  | Set_property string pyval
  | Text_members_changed string "handle list" "handle list" "handle list" "handle list" nat nat
  | Text_channel_closed
  | Command_event join_event

fun activity_deliver :: "activity \<Rightarrow> activity_event \<Rightarrow> activity_outcome" where
  "activity_deliver s Join_called = join s"
| "activity_deliver s (Got_properties d) = got_properties_cb s d"
| "activity_deliver s (Activity_properties_changed room d) =
     activity_properties_changed_cb s room d"
| "activity_deliver s (Set_property n v) = do_set_property s n v"
| "activity_deliver s (Text_members_changed msg a r lp rp actor reason) =
     activity_text_channel_members_changed_cb s msg a r lp rp actor reason"
| "activity_deliver s Text_channel_closed = activity_text_channel_closed_cb s"
| "activity_deliver s (Command_event ev) =
     (case act_join_command s of
        None \<Rightarrow> (s, [], None)
      | Some jc \<Rightarrow>
          (let r = deliver jc ev;
               f = forward_command_actions (s\<lparr>act_join_command := Some (state_of r)\<rparr>)
                     (state_of r) (actions_of r)
           in (fst f, snd f, raised r)))"

fun activity_final_state :: "activity \<Rightarrow> activity_event list \<Rightarrow> activity" where
  "activity_final_state s [] = s"
| "activity_final_state s (ev # evs) =
     activity_final_state (state_of (activity_deliver s ev)) evs"

fun activity_trace :: "activity \<Rightarrow> activity_event list \<Rightarrow> activity_action list" where
  "activity_trace s [] = []"
| "activity_trace s (ev # evs) =
     actions_of (activity_deliver s ev) @ activity_trace (state_of (activity_deliver s ev)) evs"

fun buddies_joined :: "activity_action list \<Rightarrow> handle list" where
  "buddies_joined [] = []"
| "buddies_joined (Emit_buddy_joined h # acts) = h # buddies_joined acts"
| "buddies_joined (a # acts) = buddies_joined acts"

fun handles_added :: "activity_event list \<Rightarrow> handle list" where
  "handles_added [] = []"
| "handles_added (Text_members_changed msg a r lp rp actor reason # evs) = a @ handles_added evs"
| "handles_added (ev # evs) = handles_added evs"

text \<open>
  The invariant of the spec, as a check of a trace: no handle is reported joined while it
  is among those reported joined and not yet reported left.
\<close>

fun reported_once :: "handle list \<Rightarrow> activity_action list \<Rightarrow> bool" where
  "reported_once present [] = True"
| "reported_once present (Emit_buddy_joined h # acts) =
     (h \<notin> set present \<and> reported_once (h # present) acts)"
| "reported_once present (Emit_buddy_left h # acts) = reported_once (removeAll h present) acts"
| "reported_once present (a # acts) = reported_once present acts"

fun is_command_action :: "activity_action \<Rightarrow> bool" where
  "is_command_action (Command_action a) = True"
| "is_command_action a = False"

text \<open>What the activity itself does: its trace without the actions of its join command.\<close>

definition activity_own_actions :: "activity_action list \<Rightarrow> activity_action list" where
  "activity_own_actions acts = filter (\<lambda>a. \<not> is_command_action a) acts"

section \<open>The scenario of a successful join\<close>

text \<open>
  The replies of a negotiation for self handle 7 in an empty room, up to the reply of
  \<open>AddMembers\<close>, and the membership event in which the self handle appears.
\<close>

definition negotiation_replies :: "join_event list" where
  "negotiation_replies =
     [Create_text_channel_reply ''/chan/text'', Create_tubes_channel_reply ''/chan/tubes'',
      Text_channel_ready ''/chan/text'', Tubes_channel_ready ''/chan/tubes'',
      Got_self_handle 7, Got_group_flags 0, Got_all_members [] [] [], Add_members_reply]"

definition self_joined :: join_event where
  "self_joined = Members_changed '''' [7] [] [] [] 0 0"

section \<open>Unfolding the callbacks\<close>

lemmas outcome_defs = state_of_def actions_of_def raised_def

lemmas cb_defs = run_def create_text_channel_cb_def create_tubes_channel_cb_def
  error_handler_cb_def add_self_to_channel_def tubes_ready_def tubes_channel_ready_cb_def
  text_channel_ready_cb_def text_channel_group_flags_changed_cb_def
  text_channel_members_changed_cb_def got_all_members_def got_group_flags_def
  got_self_handle_def add_members_reply_def add_members_error_def

lemmas share_cb_defs = share_run_def share_joined_cb_def share_added_activity_cb_def
  share_error_handler_cb_def share_got_handles_cb_def

lemmas activity_cb_defs = join_def got_properties_cb_def activity_properties_changed_cb_def
  do_set_property_def publish_properties_def activity_text_channel_members_changed_cb_def

lemmas block_defs = update_name_def update_tags_def update_color_def update_private_def
  update_id_def update_type_def

lemmas scenario_defs = negotiation_replies_def self_joined_def JoinCommand_init_def

section \<open>Flag deltas\<close>

text \<open>
  C8. Starting from fetched flags \<open>F\<close>, the flag-change handler applied to
  \<open>(added = A1, removed = R1)\<close> and then to \<open>(added = A2, removed = R2)\<close> raises
  nothing and leaves the flags \<open>(((F | A1) & ~R1) | A2) & ~R2\<close>.
\<close>

theorem flag_deltas_compose:
  assumes "jc_text_channel_group_flags s = Some F"
  shows "jc_text_channel_group_flags
           (final_state s [Group_flags_changed A1 R1, Group_flags_changed A2 R2])
         = Some ((((F OR A1) AND NOT R1) OR A2) AND NOT R2)
       \<and> raised (text_channel_group_flags_changed_cb s A1 R1) = None
       \<and> raised (text_channel_group_flags_changed_cb
                   (state_of (text_channel_group_flags_changed_cb s A1 R1)) A2 R2) = None"
  using assms by (simp add: text_channel_group_flags_changed_cb_def outcome_defs)

theorem flag_deltas_compose_witness:
  "jc_text_channel_group_flags
     ((JoinCommand_init (Some 42))\<lparr>jc_text_channel_group_flags := Some 5\<rparr>) = Some 5
   \<and> jc_text_channel_group_flags
       (final_state ((JoinCommand_init (Some 42))\<lparr>jc_text_channel_group_flags := Some 5\<rparr>)
          [Group_flags_changed 2 1, Group_flags_changed 8 4])
     = Some 10"
  using flag_deltas_compose
    [of "(JoinCommand_init (Some 42))\<lparr>jc_text_channel_group_flags := Some 5\<rparr>" 5 2 1 8 4]
  by (simp add: JoinCommand_init_def)

section \<open>How often \<open>finished\<close> is emitted\<close>

lemma deliver_emits:
  "length (finished_emissions (actions_of (deliver s ev))) = (if terminal s ev then 1 else 0)"
  by (cases ev)
     (auto simp: cb_defs outcome_defs finished_emissions_def Let_def split: option.splits)

lemma finished_emissions_append:
  "finished_emissions (xs @ ys) = finished_emissions xs @ finished_emissions ys"
  by (simp add: finished_emissions_def)

lemma join_emissions_count:
  "length (finished_emissions (trace s evs)) = terminal_count s evs"
proof (induction evs arbitrary: s)
  case Nil
  show ?case by (simp add: finished_emissions_def)
next
  case (Cons ev evs)
  show ?case
    by (simp add: finished_emissions_append deliver_emits Cons.IH)
qed

lemma share_finished_emissions_append:
  "share_finished_emissions (xs @ ys)
     = share_finished_emissions xs @ share_finished_emissions ys"
  by (simp add: share_finished_emissions_def)

lemma forward_count:
  "length (share_finished_emissions (actions_of (forward_join_actions s jc acts)))
     = length (filter (\<lambda>a. \<exists>e. a = Emit_finished (Some e)) acts)"
proof (induction s jc acts rule: forward_join_actions.induct)
  case (1 s jc)
  then show ?case by (simp add: outcome_defs share_finished_emissions_def)
next
  case (2 s jc e acts)
  then show ?case
    by (cases e)
       (simp_all add: outcome_defs share_finished_emissions_def Let_def share_joined_cb_def)
qed (simp_all add: outcome_defs share_finished_emissions_def Let_def)

lemma deliver_failures:
  "length (filter (\<lambda>a. \<exists>e. a = Emit_finished (Some e)) (actions_of (deliver jc ev)))
     = (case ev of Error_reply e \<Rightarrow> 1 | _ \<Rightarrow> 0)"
  by (cases ev) (auto simp: cb_defs outcome_defs Let_def split: option.splits)

lemma share_deliver_emits:
  "length (share_finished_emissions (actions_of (share_deliver s ev)))
     = (if share_terminal s ev then 1 else 0)"
proof (cases ev)
  case (Join_event jev)
  show ?thesis
  proof (cases "sc_join_command s")
    case None
    with Join_event show ?thesis
      by (cases jev) (simp_all add: outcome_defs share_finished_emissions_def)
  next
    case (Some jc)
    have "length (share_finished_emissions (actions_of (share_deliver s ev)))
            = (case jev of Error_reply e \<Rightarrow> 1 | _ \<Rightarrow> 0)"
      using Join_event Some
      by (simp add: Let_def forward_count deliver_failures
            actions_of_def [of "(a, b, c)" for a b c])
    then show ?thesis using Join_event Some by (cases jev) simp_all
  qed
next
  case (Got_handles hs)
  then show ?thesis
    by (cases hs)
       (simp_all add: share_cb_defs outcome_defs share_finished_emissions_def run_def
          JoinCommand_init_def Let_def)
qed (simp_all add: share_cb_defs outcome_defs share_finished_emissions_def)

lemma share_emissions_count:
  "length (share_finished_emissions (share_trace s evs)) = share_terminal_count s evs"
proof (induction evs arbitrary: s)
  case Nil
  show ?case by (simp add: share_finished_emissions_def)
next
  case (Cons ev evs)
  show ?case
    by (simp add: share_finished_emissions_append share_deliver_emits Cons.IH)
qed

text \<open>
  C1, as the code has it. No handler looks at \<open>_finished\<close> before it emits: over any
  sequence of deliveries without an error reply of \<open>AddMembers\<close>, a join command emits
  \<open>finished\<close> once for every terminal condition delivered (an error reply, or a
  membership event or bulk member reply that holds the self handle), and a share command
  once for every terminal condition of its own (an error reply or the \<open>AddActivity\<close>
  reply, or an error reply to its inner join command). A later terminal condition is not
  discarded; the signal is emitted exactly once exactly when one terminal condition is
  delivered.
\<close>

theorem finished_emitted_per_terminal_condition:
  "(filter is_add_members_error evs = [] \<longrightarrow>
      length (finished_emissions (trace s evs)) = terminal_count s evs)
   \<and> (filter is_join_add_members_error sevs = [] \<longrightarrow>
      length (share_finished_emissions (share_trace sh sevs)) = share_terminal_count sh sevs)"
  by (simp add: join_emissions_count share_emissions_count)

theorem finished_emitted_per_terminal_condition_witness:
  "filter is_add_members_error (Run # negotiation_replies @ [self_joined]) = []
   \<and> filter is_join_add_members_error [Share_run, Share_error_reply ''no room''] = []
   \<and> terminal_count (JoinCommand_init (Some 42)) (Run # negotiation_replies @ [self_joined]) = 1
   \<and> length (finished_emissions
        (trace (JoinCommand_init (Some 42)) (Run # negotiation_replies @ [self_joined]))) = 1
   \<and> length (share_finished_emissions
        (share_trace (ShareCommand_init ''abc'') [Share_run, Share_error_reply ''no room''])) = 1"
  using finished_emitted_per_terminal_condition
    [of "Run # negotiation_replies @ [self_joined]" "JoinCommand_init (Some 42)"
        "[Share_run, Share_error_reply ''no room'']" "ShareCommand_init ''abc''"]
  by (simp add: scenario_defs cb_defs share_cb_defs outcome_defs ShareCommand_init_def)

text \<open>
  Both channel requests fail: two emissions. The membership event with the self handle
  is delivered twice: two emissions.
\<close>

theorem finished_emitted_twice_counterexample:
  "finished_emissions
     (trace (JoinCommand_init (Some 42)) [Run, Error_reply ''no text'', Error_reply ''no tubes''])
     = [Emit_finished (Some ''no text''), Emit_finished (Some ''no tubes'')]
   \<and> finished_emissions
       (trace (JoinCommand_init (Some 42))
          (Run # negotiation_replies @ [self_joined, self_joined]))
     = [Emit_finished None, Emit_finished None]"
  by (simp add: scenario_defs cb_defs outcome_defs finished_emissions_def)

section \<open>The self handle appears\<close>

text \<open>
  C2, at the scenario of the spec: after the negotiation replies, the event in which the
  self handle 7 appears makes the join command emit \<open>finished\<close> as a success at once. It
  lists no properties and sets none, whatever the channel offers; the whole trace of the
  join holds no \<open>ListProperties\<close> and no \<open>SetProperties\<close> call.
\<close>

theorem self_join_finishes_without_properties:
  "deliver (final_state (JoinCommand_init (Some 42)) (Run # negotiation_replies)) self_joined
     = ((final_state (JoinCommand_init (Some 42)) (Run # negotiation_replies))
          \<lparr>jc_finished := True\<rparr>,
        [Emit_finished None], None)
   \<and> trace (JoinCommand_init (Some 42)) (Run # negotiation_replies @ [self_joined])
     = [RequestChannel CHANNEL_TYPE_TEXT (Some 42), RequestChannel CHANNEL_TYPE_TUBES (Some 42),
        New_Channel CHANNEL_TYPE_TEXT ''/chan/text'', New_Channel CHANNEL_TYPE_TUBES ''/chan/tubes'',
        GetSelfHandle, Connect_to_signal GroupFlagsChanged, GetGroupFlags,
        Connect_to_signal MembersChanged, GetAllMembers, AddMembers [7], Emit_finished None]"
  by (simp add: scenario_defs cb_defs outcome_defs)

section \<open>Starting a command again\<close>

lemma deliver_finished:
  "jc_finished (state_of (deliver s ev)) = (jc_finished s \<or> terminal s ev)"
  by (cases ev) (auto simp: cb_defs outcome_defs Let_def split: option.splits)

lemma deliver_room_handle:
  "jc_room_handle (state_of (deliver s ev)) = jc_room_handle s"
  by (cases ev) (auto simp: cb_defs outcome_defs Let_def split: option.splits)

lemma final_state_finished:
  "jc_finished (final_state s evs) = (jc_finished s \<or> 0 < terminal_count s evs)"
  by (induction evs arbitrary: s) (auto simp: deliver_finished)

lemma final_state_room_handle:
  "jc_room_handle (final_state s evs) = jc_room_handle s"
  by (induction evs arbitrary: s) (simp_all add: deliver_room_handle)

text \<open>
  C3, as the code has it. \<open>_JoinCommand.run\<close> tests \<open>_finished\<close> and nothing else: after
  any sequence of deliveries, \<open>run\<close> raises \<open>RuntimeError\<close> at the call, doing nothing,
  when the command had finished or a terminal condition was delivered; otherwise, a
  repeated call included, it raises nothing and issues the two channel requests.
\<close>

theorem run_fails_only_after_termination:
  "run (final_state s evs) =
     (if jc_finished s \<or> 0 < terminal_count s evs
      then (final_state s evs, [], Some (RuntimeError ''This command has already finished''))
      else (final_state s evs,
            [RequestChannel CHANNEL_TYPE_TEXT (jc_room_handle s),
             RequestChannel CHANNEL_TYPE_TUBES (jc_room_handle s)], None))"
  by (simp add: run_def final_state_finished final_state_room_handle)

theorem run_fails_only_after_termination_witness:
  "raised (run (final_state (JoinCommand_init (Some 42)) [Run, Error_reply ''no text'']))
     = Some (RuntimeError ''This command has already finished'')
   \<and> actions_of (run (final_state (JoinCommand_init (Some 42)) [Run, Error_reply ''no text'']))
     = []"
  using run_fails_only_after_termination
    [of "JoinCommand_init (Some 42)" "[Run, Error_reply ''no text'']"]
  by (simp add: JoinCommand_init_def cb_defs outcome_defs)

text \<open>A second \<open>run\<close> on a join command that was started and has not finished.\<close>

theorem run_twice_counterexample:
  "run (final_state (JoinCommand_init (Some 42)) [Run]) =
     (JoinCommand_init (Some 42),
      [RequestChannel CHANNEL_TYPE_TEXT (Some 42), RequestChannel CHANNEL_TYPE_TUBES (Some 42)],
      None)"
  by (simp add: run_def outcome_defs JoinCommand_init_def)

section \<open>Group flags: subscription and fetch\<close>

lemma subscribed_then_fetched_deliver:
  "(\<And>b. subscribed_then_fetched b rest) \<Longrightarrow>
     subscribed_then_fetched b (actions_of (deliver s ev) @ rest)"
  by (cases ev) (auto simp: cb_defs outcome_defs Let_def split: option.splits)

lemma trace_subscribed_then_fetched: "subscribed_then_fetched b (trace s evs)"
proof (induction evs arbitrary: s b)
  case Nil
  show ?case by simp
next
  case (Cons ev evs)
  show ?case using Cons.IH by (simp add: subscribed_then_fetched_deliver)
qed

lemma subscription_first:
  "subscribed_then_fetched False acts \<Longrightarrow> Connect_to_signal GroupFlagsChanged \<in> set acts
     \<Longrightarrow> \<not> fetched_before_subscribed False acts"
proof (induction acts)
  case Nil
  then show ?case by simp
next
  case (Cons a acts)
  then show ?case by (cases a) (auto split: if_splits)
qed

lemma got_self_handle_in_trace:
  "Got_self_handle h \<in> set evs \<Longrightarrow> Connect_to_signal GroupFlagsChanged \<in> set (trace s evs)"
  by (induction evs arbitrary: s) (auto simp: got_self_handle_def outcome_defs)

lemma pairs_deliver:
  "subscription_then_fetch_pairs False rest \<Longrightarrow>
     subscription_then_fetch_pairs False (actions_of (deliver s ev) @ rest)"
  by (cases ev) (auto simp: cb_defs outcome_defs Let_def split: option.splits)

lemma trace_pairs: "subscription_then_fetch_pairs False (trace s evs)"
proof (induction evs arbitrary: s)
  case Nil
  show ?case by simp
next
  case (Cons ev evs)
  show ?case using Cons.IH by (simp add: pairs_deliver)
qed

lemma count_flags_deliver:
  "count_list (actions_of (deliver s ev)) GetGroupFlags = (if is_got_self_handle ev then 1 else 0)"
  "count_list (actions_of (deliver s ev)) (Connect_to_signal GroupFlagsChanged)
     = (if is_got_self_handle ev then 1 else 0)"
  by (cases ev; auto simp: cb_defs outcome_defs Let_def split: option.splits)+

lemma count_list_append: "count_list (xs @ ys) a = count_list xs a + count_list ys a"
  by (induction xs) simp_all

lemma trace_flags_counts:
  "count_list (trace s evs) GetGroupFlags = length (filter is_got_self_handle evs)
   \<and> count_list (trace s evs) (Connect_to_signal GroupFlagsChanged)
       = length (filter is_got_self_handle evs)"
  by (induction evs arbitrary: s) (simp_all add: count_list_append count_flags_deliver)

text \<open>
  C4, as the code has it. \<open>got_self_handle\<close> subscribes to \<open>GroupFlagsChanged\<close> and then
  calls \<open>GetGroupFlags\<close>, and nothing else does either. In every execution the two occur
  only as that pair, the subscription first and the call as the very next action, once
  for each resolution of the self handle; so each \<open>GetGroupFlags\<close> call comes directly
  after the subscription, and an execution in which the self handle is resolved never has
  the fetch-then-subscribe order.
\<close>

theorem flags_subscription_precedes_fetch:
  "actions_of (got_self_handle s h) = [Connect_to_signal GroupFlagsChanged, GetGroupFlags]
   \<and> subscription_then_fetch_pairs False (trace s evs)
   \<and> count_list (trace s evs) (Connect_to_signal GroupFlagsChanged)
       = length (filter is_got_self_handle evs)
   \<and> count_list (trace s evs) GetGroupFlags = length (filter is_got_self_handle evs)
   \<and> subscribed_then_fetched False (trace s evs)
   \<and> (Got_self_handle h \<in> set evs \<longrightarrow> \<not> fetched_before_subscribed False (trace s evs))"
  using trace_subscribed_then_fetched [of False s evs] subscription_first
    got_self_handle_in_trace trace_pairs [of s evs] trace_flags_counts [of s evs]
  by (auto simp: got_self_handle_def outcome_defs)

theorem flags_subscription_precedes_fetch_witness:
  "Got_self_handle 7 \<in> set (Run # negotiation_replies)
   \<and> subscription_then_fetch_pairs False
       (trace (JoinCommand_init (Some 42)) (Run # negotiation_replies))
   \<and> count_list (trace (JoinCommand_init (Some 42)) (Run # negotiation_replies)) GetGroupFlags
       = 1
   \<and> count_list (trace (JoinCommand_init (Some 42)) (Run # negotiation_replies))
         (Connect_to_signal GroupFlagsChanged) = 1
   \<and> \<not> fetched_before_subscribed False
         (trace (JoinCommand_init (Some 42)) (Run # negotiation_replies))"
  using flags_subscription_precedes_fetch
    [of "JoinCommand_init (Some 42)" 7 "Run # negotiation_replies"]
  by (simp add: negotiation_replies_def)

theorem flags_fetch_first_counterexample:
  "actions_of (got_self_handle (JoinCommand_init (Some 42)) 7)
     = [Connect_to_signal GroupFlagsChanged, GetGroupFlags]
   \<and> \<not> fetched_before_subscribed False
         (trace (JoinCommand_init (Some 42)) (Run # negotiation_replies @ [self_joined]))"
  by (simp add: scenario_defs cb_defs outcome_defs)

section \<open>The bulk member fetch\<close>

text \<open>
  C6. Whatever the members fetched, \<open>got_all_members\<close> never fails its assertion. With
  the self handle \<open>h\<close> resolved it leaves the command as the live handler does when the
  same members are delivered as added, does what that handler does, and then: with \<open>h\<close>
  among the members the command is finished, so the assertion holds; otherwise it calls
  \<open>AddMembers [h]\<close>.
\<close>

theorem bulk_fetch_reconciles:
  "raised (got_all_members s members lp rp) \<noteq> Some AssertionError
   \<and> (\<forall>h. jc_self_handle s = Some h \<longrightarrow>
        state_of (got_all_members s members lp rp)
          = state_of (deliver s (Members_changed '''' members [] [] [] 0 0))
      \<and> actions_of (got_all_members s members lp rp)
          = actions_of (deliver s (Members_changed '''' members [] [] [] 0 0))
            @ (if h \<in> set members then [] else [AddMembers [h]])
      \<and> raised (got_all_members s members lp rp) = None
      \<and> (h \<in> set members \<longrightarrow>
            jc_finished (state_of (deliver s (Members_changed '''' members [] [] [] 0 0)))))"
  by (auto simp: got_all_members_def text_channel_members_changed_cb_def outcome_defs Let_def
           split: option.splits)

theorem bulk_fetch_reconciles_witness:
  "jc_self_handle ((JoinCommand_init (Some 42))\<lparr>jc_self_handle := Some 7\<rparr>) = Some 7
   \<and> got_all_members ((JoinCommand_init (Some 42))\<lparr>jc_self_handle := Some 7\<rparr>) [3, 7] [] []
     = ((JoinCommand_init (Some 42))\<lparr>jc_self_handle := Some 7, jc_finished := True\<rparr>,
        [Emit_finished None], None)
   \<and> actions_of
       (got_all_members ((JoinCommand_init (Some 42))\<lparr>jc_self_handle := Some 7\<rparr>) [3] [] [])
     = [AddMembers [7]]"
  using bulk_fetch_reconciles
    [of "(JoinCommand_init (Some 42))\<lparr>jc_self_handle := Some 7\<rparr>" "[3, 7]" "[]" "[]"]
    bulk_fetch_reconciles
    [of "(JoinCommand_init (Some 42))\<lparr>jc_self_handle := Some 7\<rparr>" "[3]" "[]" "[]"]
  by (simp add: JoinCommand_init_def cb_defs outcome_defs)

section \<open>The share command's protocol\<close>

lemma share_own_actions_append:
  "share_own_actions (xs @ ys) = share_own_actions xs @ share_own_actions ys"
  by (simp add: share_own_actions_def)

lemma share_joined_cb_own:
  "share_own_actions (actions_of (share_joined_cb s jc e))
     = forwarded (sc_activity_id s) (sc_room_handle s) (Emit_finished e)"
  by (cases e) (simp_all add: share_joined_cb_def outcome_defs share_own_actions_def)

lemma share_joined_cb_keeps:
  "sc_activity_id (state_of (share_joined_cb s jc e)) = sc_activity_id s"
  "sc_room_handle (state_of (share_joined_cb s jc e)) = sc_room_handle s"
  "sc_join_command (state_of (share_joined_cb s jc e)) = sc_join_command s"
  by (cases e; simp add: share_joined_cb_def outcome_defs)+

lemma forward_keeps:
  "sc_activity_id (state_of (forward_join_actions s jc acts)) = sc_activity_id s
   \<and> sc_room_handle (state_of (forward_join_actions s jc acts)) = sc_room_handle s
   \<and> sc_join_command (state_of (forward_join_actions s jc acts)) = sc_join_command s"
proof (induction s jc acts rule: forward_join_actions.induct)
  case (1 s jc)
  show ?case by (simp add: outcome_defs)
next
  case (2 s jc e acts)
  then show ?case
    by (simp add: Let_def share_joined_cb_keeps state_of_def [of "(a, b)" for a b])
qed (simp_all add: Let_def state_of_def [of "(a, b)" for a b])

lemma forward_own:
  "share_own_actions (actions_of (forward_join_actions s jc acts))
     = concat (map (forwarded (sc_activity_id s) (sc_room_handle s)) acts)"
proof (induction s jc acts rule: forward_join_actions.induct)
  case (1 s jc)
  show ?case by (simp add: outcome_defs share_own_actions_def)
next
  case (2 s jc e acts)
  have "share_own_actions (actions_of (forward_join_actions s jc (Emit_finished e # acts)))
          = share_own_actions (actions_of (share_joined_cb s jc e))
            @ share_own_actions
                (actions_of (forward_join_actions (state_of (share_joined_cb s jc e)) jc acts))"
    by (simp add: Let_def actions_of_def [of "(a, b)" for a b] share_own_actions_def)
  then show ?case using 2
    by (simp add: share_joined_cb_own share_joined_cb_keeps)
qed (simp_all add: Let_def actions_of_def [of "(a, b)" for a b] share_own_actions_def)

lemma share_deliver_join_event:
  assumes "sc_join_command s = Some jc"
  shows "sc_join_command (state_of (share_deliver s (Join_event ev)))
           = Some (state_of (deliver jc ev))"
    and "sc_activity_id (state_of (share_deliver s (Join_event ev))) = sc_activity_id s"
    and "sc_room_handle (state_of (share_deliver s (Join_event ev))) = sc_room_handle s"
    and "share_own_actions (actions_of (share_deliver s (Join_event ev)))
           = concat (map (forwarded (sc_activity_id s) (sc_room_handle s))
                       (actions_of (deliver jc ev)))"
  using assms
  by (simp_all add: Let_def forward_keeps forward_own state_of_def [of "(a, b)" for a b]
        actions_of_def [of "(a, b)" for a b])

lemma forwarded_deliver:
  "concat (map (forwarded aid room) (actions_of (deliver jc ev))) = join_outcome aid room jc ev"
  by (cases ev) (auto simp: cb_defs outcome_defs Let_def split: option.splits)

lemma share_join_outcomes:
  "sc_join_command s = Some jc \<Longrightarrow>
     share_own_actions (share_trace s (map Join_event jevs))
       = join_outcomes (sc_activity_id s) (sc_room_handle s) jc jevs"
proof (induction jevs arbitrary: s jc)
  case Nil
  show ?case by (simp add: share_own_actions_def)
next
  case (Cons ev jevs)
  show ?case
    using Cons.IH [OF share_deliver_join_event(1) [OF Cons.prems, of ev]]
    by (simp add: share_own_actions_append share_deliver_join_event [OF Cons.prems]
          forwarded_deliver del: share_deliver.simps join_outcome.simps)
qed

lemma share_trace_append:
  "share_trace s (xs @ ys) = share_trace s xs @ share_trace (share_final_state s xs) ys"
  by (induction xs arbitrary: s) simp_all

lemma share_started:
  "share_trace (ShareCommand_init aid) [Share_run, Got_handles (h # hs)]
     = [RequestHandles aid, Join_action (RequestChannel CHANNEL_TYPE_TEXT (Some h)),
        Join_action (RequestChannel CHANNEL_TYPE_TUBES (Some h))]"
  "sc_join_command (share_final_state (ShareCommand_init aid) [Share_run, Got_handles (h # hs)])
     = Some (JoinCommand_init (Some h))"
  "sc_activity_id (share_final_state (ShareCommand_init aid) [Share_run, Got_handles (h # hs)])
     = aid"
  "sc_room_handle (share_final_state (ShareCommand_init aid) [Share_run, Got_handles (h # hs)])
     = Some h"
  by (simp_all add: share_cb_defs outcome_defs ShareCommand_init_def run_def JoinCommand_init_def)

lemma share_after_join:
  "share_own_actions
     (share_trace (ShareCommand_init aid)
        ([Share_run, Got_handles (h # hs)] @ map Join_event jevs @ rest))
   = RequestHandles aid
     # join_outcomes aid (Some h) (JoinCommand_init (Some h)) jevs
     @ share_own_actions
         (share_trace
            (share_final_state
               (share_final_state (ShareCommand_init aid) [Share_run, Got_handles (h # hs)])
               (map Join_event jevs)) rest)"
  using share_join_outcomes [OF share_started(2), of aid h hs jevs]
  by (simp only: share_trace_append share_own_actions_append share_started)
     (simp add: share_own_actions_def)

text \<open>
  C7, as the code has it. A share command started with activity id \<open>aid\<close> calls
  \<open>RequestHandles\<close>; a failed lookup is its failure. With the handle \<open>h\<close> looked up it
  runs a join command for room \<open>h\<close>. Over any deliveries to that join command without
  an error reply of \<open>AddMembers\<close>: every error reply is forwarded at once as a failure
  of the share command with that error, every delivery in which the join command sees
  its self handle makes the share command call \<open>AddActivity\<close> for \<open>aid\<close> and \<open>h\<close>, and
  nothing else comes of them. The reply of \<open>AddActivity\<close> is then the success of the
  share command and its error reply a failure with the registration's own error. The
  outcomes are as many as the terminal conditions delivered, not one.
\<close>

theorem share_protocol:
  "share_own_actions (share_trace (ShareCommand_init aid) [Share_run, Share_error_reply e])
     = [RequestHandles aid, Share_emit_finished (Some e)]
   \<and> share_trace (ShareCommand_init aid) [Share_run, Got_handles (h # hs)]
     = [RequestHandles aid, Join_action (RequestChannel CHANNEL_TYPE_TEXT (Some h)),
        Join_action (RequestChannel CHANNEL_TYPE_TUBES (Some h))]
   \<and> (filter is_add_members_error jevs = [] \<longrightarrow>
        share_own_actions
          (share_trace (ShareCommand_init aid)
             ([Share_run, Got_handles (h # hs)] @ map Join_event jevs))
        = RequestHandles aid # join_outcomes aid (Some h) (JoinCommand_init (Some h)) jevs
      \<and> share_own_actions
          (share_trace (ShareCommand_init aid)
             ([Share_run, Got_handles (h # hs)] @ map Join_event jevs @ [Added_activity]))
        = RequestHandles aid # join_outcomes aid (Some h) (JoinCommand_init (Some h)) jevs
          @ [Share_emit_finished None]
      \<and> share_own_actions
          (share_trace (ShareCommand_init aid)
             ([Share_run, Got_handles (h # hs)] @ map Join_event jevs @ [Share_error_reply e]))
        = RequestHandles aid # join_outcomes aid (Some h) (JoinCommand_init (Some h)) jevs
          @ [Share_emit_finished (Some e)])"
proof -
  let ?start = "[Share_run, Got_handles (h # hs)]"
  have a: "share_own_actions (share_trace (ShareCommand_init aid) [Share_run, Share_error_reply e])
             = [RequestHandles aid, Share_emit_finished (Some e)]"
    by (simp add: share_cb_defs outcome_defs ShareCommand_init_def share_own_actions_def)
  have b: "share_own_actions (share_trace s [Added_activity]) = [Share_emit_finished None]"
          "share_own_actions (share_trace s [Share_error_reply e]) = [Share_emit_finished (Some e)]"
          "share_own_actions (share_trace s []) = []"
    for s
    by (simp_all add: share_cb_defs outcome_defs share_own_actions_def)
  have c: "share_own_actions
             (share_trace (ShareCommand_init aid) (?start @ map Join_event jevs))
           = RequestHandles aid # join_outcomes aid (Some h) (JoinCommand_init (Some h)) jevs"
    using share_after_join [of aid h hs jevs "[]"] by (simp only: b append_Nil2)
  have d: "share_own_actions
             (share_trace (ShareCommand_init aid)
                (?start @ map Join_event jevs @ [Added_activity]))
           = RequestHandles aid # join_outcomes aid (Some h) (JoinCommand_init (Some h)) jevs
             @ [Share_emit_finished None]"
          "share_own_actions
             (share_trace (ShareCommand_init aid)
                (?start @ map Join_event jevs @ [Share_error_reply e]))
           = RequestHandles aid # join_outcomes aid (Some h) (JoinCommand_init (Some h)) jevs
             @ [Share_emit_finished (Some e)]"
    by (simp_all only: share_after_join b)
  show ?thesis
    using a share_started(1) [of aid h hs] c d by blast
qed

text \<open>
  The scenario of the spec: \<open>abc\<close> resolves to room 99, the inner join succeeds, the
  registration fails.
\<close>

theorem share_protocol_witness:
  "filter is_add_members_error (negotiation_replies @ [self_joined]) = []
   \<and> share_own_actions
       (share_trace (ShareCommand_init ''abc'')
          ([Share_run, Got_handles [99]] @ map Join_event (negotiation_replies @ [self_joined])
             @ [Share_error_reply ''registration failed'']))
     = [RequestHandles ''abc'', AddActivity ''abc'' (Some 99),
        Share_emit_finished (Some ''registration failed'')]"
proof -
  have h: "filter is_add_members_error (negotiation_replies @ [self_joined]) = []"
    by (simp add: scenario_defs)
  have j: "join_outcomes ''abc'' (Some 99) (JoinCommand_init (Some 99))
             (negotiation_replies @ [self_joined])
           = [AddActivity ''abc'' (Some 99)]"
    by (simp add: scenario_defs cb_defs outcome_defs)
  show ?thesis
    using h j share_protocol
      [of "''abc''" "''registration failed''" 99 "[]" "negotiation_replies @ [self_joined]"]
    by (simp only: simp_thms append.simps)
qed

text \<open>
  Both channel requests of the inner join command fail: the share command reports two
  failures.
\<close>

theorem share_two_failures_counterexample:
  "share_own_actions
     (share_trace (ShareCommand_init ''abc'')
        [Share_run, Got_handles [99], Join_event (Error_reply ''no text''),
         Join_event (Error_reply ''no tubes'')])
   = [RequestHandles ''abc'', Share_emit_finished (Some ''no text''),
      Share_emit_finished (Some ''no tubes'')]"
  by (simp add: share_cb_defs cb_defs outcome_defs ShareCommand_init_def JoinCommand_init_def
        share_own_actions_def)

section \<open>Buddies reported by the activity\<close>

lemma buddies_joined_append:
  "buddies_joined (xs @ ys) = buddies_joined xs @ buddies_joined ys"
  by (induction xs rule: buddies_joined.induct) simp_all

lemma buddies_joined_emit: "buddies_joined (map Emit_buddy_joined hs) = hs"
  by (induction hs) simp_all

lemma buddies_joined_joined_cb:
  "buddies_joined (actions_of (activity_joined_cb s jc e)) = []"
  by (simp add: activity_joined_cb_def start_tracking_buddies_def start_tracking_channel_def
        outcome_defs Let_def split: option.splits)

lemma buddies_joined_forward:
  "buddies_joined (snd (forward_command_actions s jc acts)) = []"
proof (induction s jc acts rule: forward_command_actions.induct)
  case (1 s jc)
  show ?case by simp
next
  case (2 s jc e acts)
  then show ?case
    by (simp add: Let_def buddies_joined_append buddies_joined_joined_cb)
qed (simp_all add: Let_def)

lemma buddies_joined_blocks:
  "buddies_joined (snd (update_name d s)) = []"
  "buddies_joined (snd (update_tags d s)) = []"
  "buddies_joined (snd (update_color d s)) = []"
  "buddies_joined (snd (update_private d s)) = []"
  "buddies_joined (snd (update_id d s)) = []"
  "buddies_joined (snd (update_type d s)) = []"
  by (simp_all add: block_defs Let_def)

lemma buddies_joined_then_block:
  "buddies_joined (snd (then_block r f))
     = buddies_joined (snd r) @ buddies_joined (snd (f (fst r)))"
  by (simp add: then_block_def buddies_joined_append)

lemma buddies_joined_update: "buddies_joined (actions_of (update_properties s d)) = []"
  by (simp add: update_properties_def outcome_defs Let_def buddies_joined_then_block
        buddies_joined_blocks)

lemma buddies_joined_deliver:
  "buddies_joined (actions_of (activity_deliver s ev)) = handles_added [ev]"
proof (cases ev)
  case Join_called
  then show ?thesis
    by (simp add: join_def Let_def buddies_joined_forward actions_of_def [of "(a, b)" for a b])
next
  case (Got_properties d)
  then show ?thesis by (simp add: got_properties_cb_def buddies_joined_update)
next
  case (Activity_properties_changed room d)
  then show ?thesis by (simp add: activity_properties_changed_cb_def buddies_joined_update)
next
  case (Set_property n v)
  then show ?thesis by (simp add: do_set_property_def publish_properties_def outcome_defs)
next
  case (Text_members_changed msg a r lp rp actor reason)
  then show ?thesis
    by (simp add: activity_text_channel_members_changed_cb_def outcome_defs buddies_joined_emit)
next
  case Text_channel_closed
  then show ?thesis by (simp add: activity_text_channel_closed_cb_def outcome_defs)
next
  case (Command_event jev)
  then show ?thesis
    by (cases "act_join_command s")
       (simp_all add: Let_def buddies_joined_forward actions_of_def [of "(a, b)" for a b])
qed

lemma handles_added_Cons: "handles_added (ev # evs) = handles_added [ev] @ handles_added evs"
  by (cases ev) simp_all

text \<open>
  C5, as the code has it. The activity's membership handler emits \<open>buddy-joined\<close> once
  for every element of every \<open>added\<close> list it is given, in order, and looks at nothing
  else: over any sequence of deliveries to the activity the handles reported joined are
  the \<open>added\<close> lists of its membership events, one after the other, repeats included.
\<close>

theorem buddy_joined_per_added_handle:
  "buddies_joined (activity_trace s evs) = handles_added evs"
proof (induction evs arbitrary: s)
  case Nil
  show ?case by simp
next
  case (Cons ev evs)
  have "buddies_joined (activity_trace s (ev # evs))
          = handles_added [ev] @ handles_added evs"
    by (simp add: buddies_joined_append buddies_joined_deliver Cons.IH del: handles_added.simps)
  then show ?case by (simp add: handles_added_Cons [of ev evs])
qed

text \<open>
  An activity for room 42 joins: \<open>join\<close>, the negotiation of its join command, the self
  handle appears, and \<open>__joined_cb\<close> subscribes the membership handler. Then the events.
\<close>

theorem buddy_joined_per_added_handle_witness:
  "buddies_joined
     (activity_trace (fst (projr (Activity_init (Some 42) None)))
        (Join_called # map Command_event (negotiation_replies @ [self_joined])
           @ [Text_members_changed '''' [5, 6] [] [] [] 0 0,
              Got_properties [(''name'', PStr ''chat'')],
              Text_members_changed '''' [6] [5] [] [] 0 0]))
   = [5, 6, 6]"
  using buddy_joined_per_added_handle
    [of "fst (projr (Activity_init (Some 42) None))"
        "Join_called # map Command_event (negotiation_replies @ [self_joined])
           @ [Text_members_changed '''' [5, 6] [] [] [] 0 0,
              Got_properties [(''name'', PStr ''chat'')],
              Text_members_changed '''' [6] [5] [] [] 0 0]"]
  by (simp add: scenario_defs del: activity_trace.simps)

text \<open>
  After the same join, two membership events that both report handle 5 as added, and no
  removal between.
\<close>

theorem buddy_joined_twice_counterexample:
  "activity_own_actions
     (activity_trace (fst (projr (Activity_init (Some 42) None)))
        (Join_called # map Command_event (negotiation_replies @ [self_joined])
           @ [Text_members_changed '''' [5] [] [] [] 0 0,
              Text_members_changed '''' [5] [] [] [] 0 0]))
     = [Connect_group_MembersChanged, Connect_channel_Closed, Emit_joined True (Some ''None''),
        Emit_buddy_joined 5, Emit_buddy_joined 5]
   \<and> \<not> reported_once []
        (activity_trace (fst (projr (Activity_init (Some 42) None)))
           (Join_called # map Command_event (negotiation_replies @ [self_joined])
              @ [Text_members_changed '''' [5] [] [] [] 0 0,
                 Text_members_changed '''' [5] [] [] [] 0 0]))"
  by (simp add: Activity_init_def activity_cb_defs cb_defs scenario_defs outcome_defs
        start_tracking_properties_def dict_get_def activity_joined_cb_def
        start_tracking_buddies_def start_tracking_channel_def str_of_error_def
        activity_own_actions_def)

section \<open>\<open>Activity.join\<close>\<close>

text \<open>
  C9, as the code has it. \<open>join\<close> on an activity that holds a join command and is not
  joined does nothing at all: no signal, no negotiation. \<open>join\<close> on a joined activity
  that holds no join command emits \<open>joined\<close> as a success and does nothing else. In both
  cases, and whenever a command is held or the activity is joined, no join command is
  made and none is run.
\<close>

theorem join_without_new_command:
  "(act_join_command s \<noteq> None \<and> \<not> truthy (act_joined s) \<longrightarrow> join s = (s, [], None))
   \<and> (act_join_command s = None \<and> truthy (act_joined s) \<longrightarrow>
        join s = (s, [Emit_joined True None], None))
   \<and> (act_join_command s \<noteq> None \<or> truthy (act_joined s) \<longrightarrow>
        act_join_command (state_of (join s)) = act_join_command s
        \<and> filter is_command_action (actions_of (join s)) = [])"
  by (simp add: join_def outcome_defs)

theorem join_without_new_command_witness:
  "act_join_command (state_of (join (fst (projr (Activity_init (Some 42) None)))))
     = Some (JoinCommand_init (Some 42))
   \<and> \<not> truthy (act_joined (state_of (join (fst (projr (Activity_init (Some 42) None))))))
   \<and> join (state_of (join (fst (projr (Activity_init (Some 42) None)))))
     = (state_of (join (fst (projr (Activity_init (Some 42) None)))), [], None)
   \<and> act_join_command (fst (projr (Activity_init None (Some [(''joined'', PBool True)])))) = None
   \<and> truthy (act_joined (fst (projr (Activity_init None (Some [(''joined'', PBool True)])))))
   \<and> join (fst (projr (Activity_init None (Some [(''joined'', PBool True)]))))
     = (fst (projr (Activity_init None (Some [(''joined'', PBool True)]))),
        [Emit_joined True None], None)"
  using join_without_new_command
    [of "state_of (join (fst (projr (Activity_init (Some 42) None))))"]
    join_without_new_command
    [of "fst (projr (Activity_init None (Some [(''joined'', PBool True)])))"]
  by (simp add: Activity_init_def join_def run_def JoinCommand_init_def outcome_defs
        start_tracking_properties_def dict_get_def)

text \<open>
  \<open>join\<close> called twice on a fresh activity for room 42: the second call finds the join
  command of the first in flight and emits nothing.
\<close>

theorem join_in_flight_counterexample:
  "actions_of (join (fst (projr (Activity_init (Some 42) None))))
     = [Command_action (RequestChannel CHANNEL_TYPE_TEXT (Some 42)),
        Command_action (RequestChannel CHANNEL_TYPE_TUBES (Some 42))]
   \<and> actions_of (join (state_of (join (fst (projr (Activity_init (Some 42) None)))))) = []"
  by (simp add: Activity_init_def join_def run_def JoinCommand_init_def outcome_defs
        start_tracking_properties_def dict_get_def)

section \<open>The id and the type of an activity\<close>

lemma joined_cb_keeps:
  "act_id (state_of (activity_joined_cb s jc e)) = act_id s"
  "act_type (state_of (activity_joined_cb s jc e)) = act_type s"
  by (simp_all add: activity_joined_cb_def outcome_defs Let_def split: option.splits)

lemma forward_command_keeps:
  "act_id (fst (forward_command_actions s jc acts)) = act_id s
   \<and> act_type (fst (forward_command_actions s jc acts)) = act_type s"
proof (induction s jc acts rule: forward_command_actions.induct)
  case (1 s jc)
  show ?case by simp
next
  case (2 s jc e acts)
  then show ?case by (simp add: Let_def joined_cb_keeps)
qed (simp_all add: Let_def)

lemma block_keeps_id:
  "act_id (fst (update_name d s)) = act_id s"
  "act_id (fst (update_tags d s)) = act_id s"
  "act_id (fst (update_color d s)) = act_id s"
  "act_id (fst (update_private d s)) = act_id s"
  "act_id s \<noteq> PNone \<Longrightarrow> act_id (fst (update_id d s)) = act_id s"
  "act_id (fst (update_type d s)) = act_id s"
  by (simp_all add: block_defs Let_def)

lemma block_keeps_type:
  "act_type (fst (update_name d s)) = act_type s"
  "act_type (fst (update_tags d s)) = act_type s"
  "act_type (fst (update_color d s)) = act_type s"
  "act_type (fst (update_private d s)) = act_type s"
  "act_type (fst (update_id d s)) = act_type s"
  "act_type s \<noteq> PNone \<Longrightarrow> act_type (fst (update_type d s)) = act_type s"
  by (simp_all add: block_defs Let_def)

lemma fst_then_block: "fst (then_block r f) = fst (f (fst r))"
  by (simp add: then_block_def)

lemma update_properties_id:
  "act_id s \<noteq> PNone \<Longrightarrow> act_id (state_of (update_properties s d)) = act_id s"
  by (simp add: update_properties_def outcome_defs Let_def fst_then_block block_keeps_id)

lemma update_properties_type:
  "act_type s \<noteq> PNone \<Longrightarrow> act_type (state_of (update_properties s d)) = act_type s"
  by (simp add: update_properties_def outcome_defs Let_def fst_then_block block_keeps_type)

lemma activity_deliver_id:
  "act_id s \<noteq> PNone \<Longrightarrow> act_id (state_of (activity_deliver s ev)) = act_id s"
proof (cases ev)
  case Join_called
  then show ?thesis
    by (simp add: join_def Let_def forward_command_keeps state_of_def [of "(a, b)" for a b])
next
  case (Command_event jev)
  then show ?thesis
    by (cases "act_join_command s")
       (simp_all add: Let_def forward_command_keeps state_of_def [of "(a, b)" for a b])
qed (simp_all add: activity_cb_defs update_properties_id,
     simp_all add: outcome_defs activity_text_channel_closed_cb_def)

lemma activity_deliver_type:
  "act_type s \<noteq> PNone \<Longrightarrow> act_type (state_of (activity_deliver s ev)) = act_type s"
proof (cases ev)
  case Join_called
  then show ?thesis
    by (simp add: join_def Let_def forward_command_keeps state_of_def [of "(a, b)" for a b])
next
  case (Command_event jev)
  then show ?thesis
    by (cases "act_join_command s")
       (simp_all add: Let_def forward_command_keeps state_of_def [of "(a, b)" for a b])
qed (simp_all add: activity_cb_defs update_properties_type,
     simp_all add: outcome_defs activity_text_channel_closed_cb_def)

text \<open>
  C10. Once the \<open>_id\<close> of an activity is not \<open>None\<close>, no sequence of deliveries changes
  it: not the reply of \<open>GetProperties\<close>, not an \<open>ActivityPropertiesChanged\<close> signal, both
  of which go through \<open>_update_properties\<close>, and not \<open>do_set_property\<close>, \<open>join\<close>, a
  callback of the join command, a membership event or the closing of the channel either.
  The same holds of \<open>_type\<close>.
\<close>

theorem id_and_type_write_once:
  "(act_id s \<noteq> PNone \<longrightarrow> act_id (activity_final_state s evs) = act_id s)
   \<and> (act_type s \<noteq> PNone \<longrightarrow> act_type (activity_final_state s evs) = act_type s)"
proof (induction evs arbitrary: s)
  case Nil
  show ?case by simp
next
  case (Cons ev evs)
  show ?case using Cons.IH [of "state_of (activity_deliver s ev)"]
    by (auto simp: activity_deliver_id activity_deliver_type)
qed

theorem id_and_type_write_once_witness:
  "act_id (fst (projr (Activity_init (Some 42)
             (Some [(''id'', PStr ''abc''), (''type'', PStr ''org.laptop.Chat'')]))))
     = PStr ''abc''
   \<and> act_id (activity_final_state
       (fst (projr (Activity_init (Some 42)
             (Some [(''id'', PStr ''abc''), (''type'', PStr ''org.laptop.Chat'')]))))
       [Got_properties [(''id'', PStr ''other''), (''name'', PStr ''chat'')],
        Activity_properties_changed 42 [(''type'', PStr ''org.laptop.Other'')],
        Set_property ''id'' (PStr ''third'')])
     = PStr ''abc''
   \<and> act_type (activity_final_state
       (fst (projr (Activity_init (Some 42)
             (Some [(''id'', PStr ''abc''), (''type'', PStr ''org.laptop.Chat'')]))))
       [Got_properties [(''id'', PStr ''other''), (''name'', PStr ''chat'')],
        Activity_properties_changed 42 [(''type'', PStr ''org.laptop.Other'')],
        Set_property ''id'' (PStr ''third'')])
     = PStr ''org.laptop.Chat''"
  using id_and_type_write_once
    [of "fst (projr (Activity_init (Some 42)
             (Some [(''id'', PStr ''abc''), (''type'', PStr ''org.laptop.Chat'')])))"
        "[Got_properties [(''id'', PStr ''other''), (''name'', PStr ''chat'')],
          Activity_properties_changed 42 [(''type'', PStr ''org.laptop.Other'')],
          Set_property ''id'' (PStr ''third'')]"]
  by (simp add: Activity_init_def dict_get_def start_tracking_properties_def outcome_defs)

end
